theory Spec2Isabelle
  imports Main "HOL-Library.Word" "HOL-Library.Sublist"
begin

section \<open>JavaScript strings\<close>

text \<open>
  A JavaScript string is a sequence of 16-bit UTF-16 code units. \<open>===\<close> on two
  strings compares the two sequences, \<open>a + b\<close> and template-literal interpolation
  concatenate them. The literals of the page are ASCII; \<open>js\<close> turns an ASCII literal
  into its code units.
\<close>

type_synonym jschar = "16 word"

type_synonym jsstring = "jschar list"

definition js :: "string \<Rightarrow> jsstring" where
  "js s = map (\<lambda>c. of_nat (of_char c)) s"

text \<open>
  \<open>String.prototype.trim\<close> removes the leading and the trailing run of WhiteSpace and
  LineTerminator code points (ECMAScript: TAB, VT, FF, SP, NBSP, ZWNBSP, the category Zs,
  and LF, CR, LS, PS). All of them are single code units.
\<close>

definition isWhiteSpace :: "jschar \<Rightarrow> bool" where
  "isWhiteSpace c =
     (c = 0x0009 \<or> c = 0x000A \<or> c = 0x000B \<or> c = 0x000C \<or> c = 0x000D \<or>
      c = 0x0020 \<or> c = 0x00A0 \<or> c = 0x1680 \<or> (0x2000 \<le> c \<and> c \<le> 0x200A) \<or>
      c = 0x2028 \<or> c = 0x2029 \<or> c = 0x202F \<or> c = 0x205F \<or> c = 0x3000 \<or>
      c = 0xFEFF)"

definition trim :: "jsstring \<Rightarrow> jsstring" where
  "trim s = rev (dropWhile isWhiteSpace (rev (dropWhile isWhiteSpace s)))"

text \<open>
  \<open>Number.prototype.toString\<close> of an integer-valued number below \<open>10^21\<close> in
  magnitude (every value of \<open>Date.now()\<close> is one) is its decimal numeral, with a
  leading minus sign for a negative one.
\<close>

definition digit :: "nat \<Rightarrow> jschar" where
  "digit d = of_nat (48 + d)"

fun decimal :: "nat \<Rightarrow> jsstring" where
  "decimal n = (if n < 10 then [digit n] else decimal (n div 10) @ [digit (n mod 10)])"

definition toString :: "int \<Rightarrow> jsstring" where
  "toString i = (if i < 0 then js ''-'' @ decimal (nat (- i)) else decimal (nat i))"

section \<open>The templates of \<open>generateMockCode\<close>\<close>

text \<open>
  Each dedicated template is a template literal with one interpolation, \<open>${prompt}\<close>,
  in its first line: the text before it, the prompt, and the rest of the literal (which
  starts with the closing double quote of the first line). The rest is fixed text; what
  looks like code in it (\<open>new Date()\<close>, \<open>Date.now()\<close>) is text of the literal and is
  never evaluated.
\<close>

definition javascript_function_rest :: string where
  \<open>javascript_function_rest =
    ''"\<newline>'' @
    ''function processData(input) {\<newline>'' @
    ''    try {\<newline>'' @
    ''        // Validate input\<newline>'' @
    ''        if (!input || typeof input !== \'object\') {\<newline>'' @
    ''            throw new Error(\'Invalid input provided\');\<newline>'' @
    ''        }\<newline>'' @
    ''        \<newline>'' @
    ''        // Process the data\<newline>'' @
    ''        const result = {\<newline>'' @
    ''            processed: true,\<newline>'' @
    ''            timestamp: new Date().toISOString(),\<newline>'' @
    ''            data: input\<newline>'' @
    ''        };\<newline>'' @
    ''        \<newline>'' @
    ''        // Apply transformations\<newline>'' @
    ''        if (input.items && Array.isArray(input.items)) {\<newline>'' @
    ''            result.data.items = input.items.map(item => ({\<newline>'' @
    ''                ...item,\<newline>'' @
    ''                processed: true\<newline>'' @
    ''            }));\<newline>'' @
    ''        }\<newline>'' @
    ''        \<newline>'' @
    ''        return result;\<newline>'' @
    ''    } catch (error) {\<newline>'' @
    ''        console.error(\'Processing failed:\', error);\<newline>'' @
    ''        return { error: error.message };\<newline>'' @
    ''    }\<newline>'' @
    ''}\<newline>'' @
    ''\<newline>'' @
    ''// Usage example\<newline>'' @
    ''const sampleData = { items: [{ id: 1, name: \'test\' }] };\<newline>'' @
    ''const result = processData(sampleData);\<newline>'' @
    ''console.log(result);''\<close>

definition javascript_function_template :: "jsstring \<Rightarrow> jsstring" where
  \<open>javascript_function_template prompt =
    js ''// Generated JavaScript function based on: "'' @ prompt @ js javascript_function_rest\<close>

definition javascript_api_rest :: string where
  \<open>javascript_api_rest =
    ''"\<newline>'' @
    ''const express = require(\'express\');\<newline>'' @
    ''const router = express.Router();\<newline>'' @
    ''\<newline>'' @
    ''// Middleware for validation\<newline>'' @
    ''const validateRequest = (req, res, next) => {\<newline>'' @
    ''    const { body } = req;\<newline>'' @
    ''    \<newline>'' @
    ''    if (!body || Object.keys(body).length === 0) {\<newline>'' @
    ''        return res.status(400).json({\<newline>'' @
    ''            error: \'Request body is required\'\<newline>'' @
    ''        });\<newline>'' @
    ''    }\<newline>'' @
    ''    \<newline>'' @
    ''    next();\<newline>'' @
    ''};\<newline>'' @
    ''\<newline>'' @
    ''// Main API endpoint\<newline>'' @
    ''router.post(\'/api/process\', validateRequest, async (req, res) => {\<newline>'' @
    ''    try {\<newline>'' @
    ''        const { data } = req.body;\<newline>'' @
    ''        \<newline>'' @
    ''        // Process the request\<newline>'' @
    ''        const processedData = {\<newline>'' @
    ''            id: Date.now(),\<newline>'' @
    ''            originalData: data,\<newline>'' @
    ''            processed: true,\<newline>'' @
    ''            timestamp: new Date().toISOString()\<newline>'' @
    ''        };\<newline>'' @
    ''        \<newline>'' @
    ''        // Simulate async processing\<newline>'' @
    ''        await new Promise(resolve => setTimeout(resolve, 100));\<newline>'' @
    ''        \<newline>'' @
    ''        res.status(200).json({\<newline>'' @
    ''            success: true,\<newline>'' @
    ''            data: processedData\<newline>'' @
    ''        });\<newline>'' @
    ''        \<newline>'' @
    ''    } catch (error) {\<newline>'' @
    ''        console.error(\'API Error:\', error);\<newline>'' @
    ''        res.status(500).json({\<newline>'' @
    ''            error: \'Internal server error\',\<newline>'' @
    ''            message: error.message\<newline>'' @
    ''        });\<newline>'' @
    ''    }\<newline>'' @
    ''});\<newline>'' @
    ''\<newline>'' @
    ''module.exports = router;''\<close>

definition javascript_api_template :: "jsstring \<Rightarrow> jsstring" where
  \<open>javascript_api_template prompt =
    js ''// Generated Express.js API endpoint based on: "'' @ prompt @ js javascript_api_rest\<close>

definition python_function_rest :: string where
  \<open>python_function_rest =
    ''"\<newline>'' @
    ''from typing import Dict, Any, Optional\<newline>'' @
    ''import json\<newline>'' @
    ''from datetime import datetime\<newline>'' @
    ''\<newline>'' @
    ''def process_data(input_data: Dict[str, Any]) -> Dict[str, Any]:\<newline>'' @
    ''    """\<newline>'' @
    ''    Process input data and return structured result.\<newline>'' @
    ''    \<newline>'' @
    ''    Args:\<newline>'' @
    ''        input_data: Dictionary containing data to process\<newline>'' @
    ''        \<newline>'' @
    ''    Returns:\<newline>'' @
    ''        Dictionary with processed results\<newline>'' @
    ''        \<newline>'' @
    ''    Raises:\<newline>'' @
    ''        ValueError: If input data is invalid\<newline>'' @
    ''    """\<newline>'' @
    ''    try:\<newline>'' @
    ''        # Validate input\<newline>'' @
    ''        if not isinstance(input_data, dict):\<newline>'' @
    ''            raise ValueError("Input must be a dictionary")\<newline>'' @
    ''        \<newline>'' @
    ''        # Process the data\<newline>'' @
    ''        result = {\<newline>'' @
    ''            "processed": True,\<newline>'' @
    ''            "timestamp": datetime.now().isoformat(),\<newline>'' @
    ''            "data": input_data.copy()\<newline>'' @
    ''        }\<newline>'' @
    ''        \<newline>'' @
    ''        # Apply transformations\<newline>'' @
    ''        if "items" in input_data and isinstance(input_data["items"], list):\<newline>'' @
    ''            result["data"]["items"] = [\<newline>'' @
    ''                {**item, "processed": True} \<newline>'' @
    ''                for item in input_data["items"]\<newline>'' @
    ''            ]\<newline>'' @
    ''        \<newline>'' @
    ''        return result\<newline>'' @
    ''        \<newline>'' @
    ''    except Exception as e:\<newline>'' @
    ''        return {"error": str(e)}\<newline>'' @
    ''\<newline>'' @
    ''# Usage example\<newline>'' @
    ''if __name__ == "__main__":\<newline>'' @
    ''    sample_data = {"items": [{"id": 1, "name": "test"}]}\<newline>'' @
    ''    result = process_data(sample_data)\<newline>'' @
    ''    print(json.dumps(result, indent=2))''\<close>

definition python_function_template :: "jsstring \<Rightarrow> jsstring" where
  \<open>python_function_template prompt =
    js ''# Generated Python function based on: "'' @ prompt @ js python_function_rest\<close>

definition python_class_rest :: string where
  \<open>python_class_rest =
    ''"\<newline>'' @
    ''from typing import List, Dict, Any, Optional\<newline>'' @
    ''from datetime import datetime\<newline>'' @
    ''import logging\<newline>'' @
    ''\<newline>'' @
    ''class DataProcessor:\<newline>'' @
    ''    """\<newline>'' @
    ''    A class for processing and managing data operations.\<newline>'' @
    ''    """\<newline>'' @
    ''    \<newline>'' @
    ''    def __init__(self, config: Optional[Dict[str, Any]] = None):\<newline>'' @
    ''        """\<newline>'' @
    ''        Initialize the DataProcessor.\<newline>'' @
    ''        \<newline>'' @
    ''        Args:\<newline>'' @
    ''            config: Optional configuration dictionary\<newline>'' @
    ''        """\<newline>'' @
    ''        self.config = config or {}\<newline>'' @
    ''        self.processed_items: List[Dict[str, Any]] = []\<newline>'' @
    ''        self.logger = logging.getLogger(__name__)\<newline>'' @
    ''        \<newline>'' @
    ''    def add_item(self, item: Dict[str, Any]) -> bool:\<newline>'' @
    ''        """\<newline>'' @
    ''        Add an item to be processed.\<newline>'' @
    ''        \<newline>'' @
    ''        Args:\<newline>'' @
    ''            item: Dictionary containing item data\<newline>'' @
    ''            \<newline>'' @
    ''        Returns:\<newline>'' @
    ''            True if item was added successfully\<newline>'' @
    ''        """\<newline>'' @
    ''        try:\<newline>'' @
    ''            validated_item = self._validate_item(item)\<newline>'' @
    ''            self.processed_items.append(validated_item)\<newline>'' @
    ''            self.logger.info(f"Added item: {validated_item.get(\'id\', \'unknown\')}")\<newline>'' @
    ''            return True\<newline>'' @
    ''        except Exception as e:\<newline>'' @
    ''            self.logger.error(f"Failed to add item: {e}")\<newline>'' @
    ''            return False\<newline>'' @
    ''    \<newline>'' @
    ''    def process_all(self) -> List[Dict[str, Any]]:\<newline>'' @
    ''        """\<newline>'' @
    ''        Process all added items.\<newline>'' @
    ''        \<newline>'' @
    ''        Returns:\<newline>'' @
    ''            List of processed items\<newline>'' @
    ''        """\<newline>'' @
    ''        results = []\<newline>'' @
    ''        for item in self.processed_items:\<newline>'' @
    ''            processed_item = self._process_item(item)\<newline>'' @
    ''            results.append(processed_item)\<newline>'' @
    ''        \<newline>'' @
    ''        return results\<newline>'' @
    ''    \<newline>'' @
    ''    def _validate_item(self, item: Dict[str, Any]) -> Dict[str, Any]:\<newline>'' @
    ''        """Validate and prepare item for processing."""\<newline>'' @
    ''        if not isinstance(item, dict):\<newline>'' @
    ''            raise ValueError("Item must be a dictionary")\<newline>'' @
    ''        \<newline>'' @
    ''        return {\<newline>'' @
    ''            **item,\<newline>'' @
    ''            "added_at": datetime.now().isoformat(),\<newline>'' @
    ''            "status": "pending"\<newline>'' @
    ''        }\<newline>'' @
    ''    \<newline>'' @
    ''    def _process_item(self, item: Dict[str, Any]) -> Dict[str, Any]:\<newline>'' @
    ''        """Process a single item."""\<newline>'' @
    ''        return {\<newline>'' @
    ''            **item,\<newline>'' @
    ''            "processed_at": datetime.now().isoformat(),\<newline>'' @
    ''            "status": "completed"\<newline>'' @
    ''        }\<newline>'' @
    ''\<newline>'' @
    ''# Usage example\<newline>'' @
    ''if __name__ == "__main__":\<newline>'' @
    ''    processor = DataProcessor({"debug": True})\<newline>'' @
    ''    processor.add_item({"id": 1, "name": "test item"})\<newline>'' @
    ''    results = processor.process_all()\<newline>'' @
    ''    print(results)''\<close>

definition python_class_template :: "jsstring \<Rightarrow> jsstring" where
  \<open>python_class_template prompt =
    js ''# Generated Python class based on: "'' @ prompt @ js python_class_rest\<close>

definition java_class_rest :: string where
  \<open>java_class_rest =
    ''"\<newline>'' @
    ''import java.time.LocalDateTime;\<newline>'' @
    ''import java.time.format.DateTimeFormatter;\<newline>'' @
    ''import java.util.*;\<newline>'' @
    ''import java.util.logging.Logger;\<newline>'' @
    ''\<newline>'' @
    ''public class DataProcessor {\<newline>'' @
    ''    private static final Logger logger = Logger.getLogger(DataProcessor.class.getName());\<newline>'' @
    ''    private final Map<String, Object> config;\<newline>'' @
    ''    private final List<Map<String, Object>> processedItems;\<newline>'' @
    ''    \<newline>'' @
    ''    public DataProcessor() {\<newline>'' @
    ''        this(new HashMap<>());\<newline>'' @
    ''    }\<newline>'' @
    ''    \<newline>'' @
    ''    public DataProcessor(Map<String, Object> config) {\<newline>'' @
    ''        this.config = config;\<newline>'' @
    ''        this.processedItems = new ArrayList<>();\<newline>'' @
    ''    }\<newline>'' @
    ''    \<newline>'' @
    ''    public boolean addItem(Map<String, Object> item) {\<newline>'' @
    ''        try {\<newline>'' @
    ''            Map<String, Object> validatedItem = validateItem(item);\<newline>'' @
    ''            processedItems.add(validatedItem);\<newline>'' @
    ''            logger.info("Added item: " + validatedItem.getOrDefault("id", "unknown"));\<newline>'' @
    ''            return true;\<newline>'' @
    ''        } catch (Exception e) {\<newline>'' @
    ''            logger.severe("Failed to add item: " + e.getMessage());\<newline>'' @
    ''            return false;\<newline>'' @
    ''        }\<newline>'' @
    ''    }\<newline>'' @
    ''    \<newline>'' @
    ''    public List<Map<String, Object>> processAll() {\<newline>'' @
    ''        List<Map<String, Object>> results = new ArrayList<>();\<newline>'' @
    ''        for (Map<String, Object> item : processedItems) {\<newline>'' @
    ''            Map<String, Object> processedItem = processItem(item);\<newline>'' @
    ''            results.add(processedItem);\<newline>'' @
    ''        }\<newline>'' @
    ''        return results;\<newline>'' @
    ''    }\<newline>'' @
    ''    \<newline>'' @
    ''    private Map<String, Object> validateItem(Map<String, Object> item) {\<newline>'' @
    ''        if (item == null) {\<newline>'' @
    ''            throw new IllegalArgumentException("Item cannot be null");\<newline>'' @
    ''        }\<newline>'' @
    ''        \<newline>'' @
    ''        Map<String, Object> validatedItem = new HashMap<>(item);\<newline>'' @
    ''        validatedItem.put("addedAt", LocalDateTime.now().format(DateTimeFormatter.ISO_LOCAL_DATE_TIME));\<newline>'' @
    ''        validatedItem.put("status", "pending");\<newline>'' @
    ''        \<newline>'' @
    ''        return validatedItem;\<newline>'' @
    ''    }\<newline>'' @
    ''    \<newline>'' @
    ''    private Map<String, Object> processItem(Map<String, Object> item) {\<newline>'' @
    ''        Map<String, Object> processedItem = new HashMap<>(item);\<newline>'' @
    ''        processedItem.put("processedAt", LocalDateTime.now().format(DateTimeFormatter.ISO_LOCAL_DATE_TIME));\<newline>'' @
    ''        processedItem.put("status", "completed");\<newline>'' @
    ''        \<newline>'' @
    ''        return processedItem;\<newline>'' @
    ''    }\<newline>'' @
    ''    \<newline>'' @
    ''    // Usage example\<newline>'' @
    ''    public static void main(String[] args) {\<newline>'' @
    ''        DataProcessor processor = new DataProcessor();\<newline>'' @
    ''        \<newline>'' @
    ''        Map<String, Object> item = new HashMap<>();\<newline>'' @
    ''        item.put("id", 1);\<newline>'' @
    ''        item.put("name", "test item");\<newline>'' @
    ''        \<newline>'' @
    ''        processor.addItem(item);\<newline>'' @
    ''        List<Map<String, Object>> results = processor.processAll();\<newline>'' @
    ''        \<newline>'' @
    ''        System.out.println(results);\<newline>'' @
    ''    }\<newline>'' @
    ''}''\<close>

definition java_class_template :: "jsstring \<Rightarrow> jsstring" where
  \<open>java_class_template prompt =
    js ''// Generated Java class based on: "'' @ prompt @ js java_class_rest\<close>

text \<open>
  The default template interpolates the language, the type, and the prompt twice.
\<close>

definition fallback_middle :: string where
  \<open>fallback_middle =
    ''"\<newline>'' @
    ''// This is a placeholder implementation\<newline>'' @
    ''// Please provide more specific requirements for better code generation\<newline>'' @
    ''\<newline>'' @
    ''console.log("Generated code for: ''\<close>

definition fallback_template :: "jsstring \<Rightarrow> jsstring \<Rightarrow> jsstring \<Rightarrow> jsstring" where
  \<open>fallback_template prompt language type =
    js ''// Generated '' @ language @ js '' '' @ type @ js '' based on: "'' @ prompt @
    js fallback_middle @ prompt @ js ''");''\<close>

text \<open>
  \<open>generateMockCode(prompt, language, type)\<close>. The source nests the tests on
  \<open>type\<close> inside the tests on \<open>language\<close> and falls through to the default
  \<open>return\<close> when no inner test succeeds; the chain below takes the same branch for
  every input. \<open>lowerPrompt = prompt.toLowerCase()\<close> is computed first and never read.
\<close>

definition generateMockCode :: "jsstring \<Rightarrow> jsstring \<Rightarrow> jsstring \<Rightarrow> jsstring" where
  "generateMockCode prompt language type =
     (if language = js ''javascript'' \<and> type = js ''function'' then javascript_function_template prompt
      else if language = js ''javascript'' \<and> type = js ''api'' then javascript_api_template prompt
      else if language = js ''python'' \<and> type = js ''function'' then python_function_template prompt
      else if language = js ''python'' \<and> type = js ''class'' then python_class_template prompt
      else if language = js ''java'' \<and> type = js ''class'' then java_class_template prompt
      else fallback_template prompt language type)"

section \<open>The page's data and state\<close>

text \<open>
  \<open>interface GeneratedCode\<close>. The fields carry the prefix \<open>gc_\<close> (\<open>id\<close>,
  \<open>language\<close> and \<open>type\<close> are also names of HOL constants and of parameters of the
  page's functions). \<open>timestamp\<close> is a \<open>Date\<close>: its time value in milliseconds.
\<close>

record GeneratedCode =
  gc_id :: jsstring
  gc_language :: jsstring
  gc_type :: jsstring
  gc_code :: jsstring
  gc_description :: jsstring
  gc_timestamp :: int

text \<open>The argument of \<open>toast\<close>: \<open>{ title, description, variant? }\<close>.\<close>

record toast_options =
  toast_title :: jsstring
  toast_description :: jsstring
  toast_variant :: "jsstring option"

text \<open>
  The state hooks of \<open>CodeGenerationPage\<close>, and the notifications handed to \<open>toast\<close>
  so far, oldest first.
\<close>

record page_state =
  prompt :: jsstring
  selectedLanguage :: jsstring
  selectedType :: jsstring
  isGenerating :: bool
  generatedCodes :: "GeneratedCode list"
  toasts :: "toast_options list"

text \<open>The initial values of the \<open>useState\<close> hooks.\<close>

definition initial_state :: page_state where
  "initial_state =
     \<lparr>prompt = [], selectedLanguage = js ''javascript'', selectedType = js ''function'',
      isGenerating = False, generatedCodes = [], toasts = []\<rparr>"


text \<open>
  Modelled from the spec: the \<open>toast\<close> function that the page takes from
  \<open>useToast()\<close> of \<open>@/hooks/use-toast\<close> is not among the sources (the hook that is
  there returns \<open>showToast\<close>). The spec makes it the notification collaborator, which
  receives each notification and displays it; here it records the notification.
\<close>

definition toast :: "toast_options \<Rightarrow> page_state \<Rightarrow> page_state" where
  "toast t s = s\<lparr>toasts := toasts s @ [t]\<rparr>"

section \<open>\<open>generateCode\<close>\<close>

text \<open>
  \<open>generateCode\<close> is an \<open>async\<close> function with one \<open>await\<close>. Up to the
  \<open>await\<close> it validates the prompt and sets the pending flag; the part after the
  \<open>await\<close> runs later, on the state as it is then (\<open>setGeneratedCodes\<close> is given
  an updater of the previous value), with the \<open>prompt\<close>, \<open>selectedLanguage\<close> and
  \<open>selectedType\<close> its closure captured. \<open>now\<close> is what \<open>Date.now()\<close> returns
  there and \<open>date\<close> the time value of \<open>new Date()\<close>.
\<close>

record pending =
  pending_prompt :: jsstring
  pending_language :: jsstring
  pending_type :: jsstring

definition prompt_required :: toast_options where
  "prompt_required =
     \<lparr>toast_title = js ''Prompt Required'',
      toast_description = js ''Please enter a description of what you want to generate.'',
      toast_variant = Some (js ''destructive'')\<rparr>"

definition code_generated :: "jsstring \<Rightarrow> jsstring \<Rightarrow> toast_options" where
  "code_generated language type =
     \<lparr>toast_title = js ''Code Generated'',
      toast_description = language @ js '' '' @ type @ js '' has been generated successfully.'',
      toast_variant = None\<rparr>"

definition generateCode_start :: "page_state \<Rightarrow> page_state \<times> pending option" where
  "generateCode_start s =
     (if trim (prompt s) = [] then (toast prompt_required s, None)
      else (s\<lparr>isGenerating := True\<rparr>,
            Some \<lparr>pending_prompt = prompt s, pending_language = selectedLanguage s,
                  pending_type = selectedType s\<rparr>))"

definition newCode :: "pending \<Rightarrow> int \<Rightarrow> int \<Rightarrow> GeneratedCode" where
  "newCode k now date =
     \<lparr>gc_id = toString now,
      gc_language = pending_language k,
      gc_type = pending_type k,
      gc_code = generateMockCode (pending_prompt k) (pending_language k) (pending_type k),
      gc_description = pending_prompt k,
      gc_timestamp = date\<rparr>"

definition generateCode_finish :: "pending \<Rightarrow> int \<Rightarrow> int \<Rightarrow> page_state \<Rightarrow> page_state" where
  "generateCode_finish k now date s =
     toast (code_generated (pending_language k) (pending_type k))
       (s\<lparr>generatedCodes := newCode k now date # generatedCodes s,
          prompt := [],
          isGenerating := False\<rparr>)"

text \<open>One call of \<open>generateCode\<close> that runs to its end with nothing in between.\<close>

definition generateCode :: "int \<Rightarrow> int \<Rightarrow> page_state \<Rightarrow> page_state" where
  "generateCode now date s =
     (case generateCode_start s of
        (s', None) \<Rightarrow> s'
      | (s', Some k) \<Rightarrow> generateCode_finish k now date s')"

text \<open>
  A submission is what the user does for one generation: fill the textarea
  (\<open>setPrompt\<close>), choose in the two selects (\<open>setSelectedLanguage\<close>,
  \<open>setSelectedType\<close>) and press the button (\<open>generateCode\<close>), together with the two
  clock readings of that call. A session is a sequence of submissions.
\<close>

record submission =
  sub_prompt :: jsstring
  sub_language :: jsstring
  sub_type :: jsstring
  sub_now :: int
  sub_date :: int

definition submit :: "submission \<Rightarrow> page_state \<Rightarrow> page_state" where
  "submit e s =
     generateCode (sub_now e) (sub_date e)
       (s\<lparr>prompt := sub_prompt e, selectedLanguage := sub_language e, selectedType := sub_type e\<rparr>)"

fun session :: "page_state \<Rightarrow> submission list \<Rightarrow> page_state" where
  "session s [] = s"
| "session s (e # es) = session (submit e s) es"

text \<open>A submission passes the validation when its prompt is not blank.\<close>

definition accepted :: "submission \<Rightarrow> bool" where
  "accepted e = (trim (sub_prompt e) \<noteq> [])"

text \<open>The artifact a submission that passes the validation puts on the list.\<close>

definition artifact :: "submission \<Rightarrow> GeneratedCode" where
  "artifact e =
     newCode \<lparr>pending_prompt = sub_prompt e, pending_language = sub_language e,
              pending_type = sub_type e\<rparr> (sub_now e) (sub_date e)"



section \<open>\<open>getFileExtension\<close> and \<open>downloadCode\<close>\<close>

text \<open>
  \<open>extensions\<close> is an object literal, and \<open>extensions[language]\<close> is a property
  read: it finds an own property of the object, and otherwise a property the object
  inherits from \<open>Object.prototype\<close>, and is \<open>undefined\<close> when neither exists. The
  inherited members are built-in functions (and, for \<open>__proto__\<close>, the prototype
  object): values that are not strings and are truthy.
\<close>

datatype jsvalue = JSUndefined | JSString jsstring | JSBuiltin jsstring

definition extensions :: "(jsstring \<times> jsstring) list" where
  "extensions =
     [(js ''javascript'', js ''js''),
      (js ''typescript'', js ''ts''),
      (js ''python'', js ''py''),
      (js ''java'', js ''java''),
      (js ''go'', js ''go''),
      (js ''rust'', js ''rs''),
      (js ''cpp'', js ''cpp''),
      (js ''csharp'', js ''cs'')]"

text \<open>
  The names of the members of \<open>Object.prototype\<close> in ECMAScript. An object literal
  inherits each of them, and none of them is a key of \<open>extensions\<close>.
\<close>

definition Object_prototype :: "jsstring list" where
  "Object_prototype =
     [js ''constructor'', js ''hasOwnProperty'', js ''isPrototypeOf'',
      js ''propertyIsEnumerable'', js ''toLocaleString'', js ''toString'', js ''valueOf'',
      js ''__proto__'', js ''__defineGetter__'', js ''__defineSetter__'',
      js ''__lookupGetter__'', js ''__lookupSetter__'']"

definition get_property :: "(jsstring \<times> jsstring) list \<Rightarrow> jsstring \<Rightarrow> jsvalue" where
  "get_property obj key =
     (case map_of obj key of
        Some v \<Rightarrow> JSString v
      | None \<Rightarrow> if key \<in> set Object_prototype then JSBuiltin key else JSUndefined)"

fun truthy :: "jsvalue \<Rightarrow> bool" where
  "truthy JSUndefined = False"
| "truthy (JSString s) = (s \<noteq> [])"
| "truthy (JSBuiltin n) = True"

text \<open>\<open>a || b\<close>: the left operand when it is truthy, the right one otherwise.\<close>

definition or_else :: "jsvalue \<Rightarrow> jsvalue \<Rightarrow> jsvalue" where
  "or_else a b = (if truthy a then a else b)"

definition getFileExtension :: "jsstring \<Rightarrow> jsvalue" where
  "getFileExtension language = or_else (get_property extensions language) (JSString (js ''txt''))"

text \<open>
  The string a value becomes in a template literal. The text of a built-in is the
  engine's (\<open>builtinText\<close>).
\<close>

fun ToString :: "(jsstring \<Rightarrow> jsstring) \<Rightarrow> jsvalue \<Rightarrow> jsstring" where
  "ToString builtinText JSUndefined = js ''undefined''"
| "ToString builtinText (JSString s) = s"
| "ToString builtinText (JSBuiltin n) = builtinText n"

text \<open>
  \<open>downloadCode\<close> makes a blob of the code and clicks an anchor whose \<open>download\<close>
  attribute is the file name.
\<close>

record download =
  blob_parts :: "jsstring list"
  blob_type :: jsstring
  download_name :: jsstring

definition downloadCode :: "(jsstring \<Rightarrow> jsstring) \<Rightarrow> GeneratedCode \<Rightarrow> download" where
  "downloadCode builtinText code =
     (let extension = getFileExtension (gc_language code) in
      \<lparr>blob_parts = [gc_code code],
       blob_type = js ''text/plain'',
       download_name =
         js ''generated-'' @ gc_type code @ js ''-'' @ gc_id code @ js ''.'' @
         ToString builtinText extension\<rparr>)"

section \<open>Sample data\<close>

text \<open>
  Two submissions of the same prompt, language and type, two and a half seconds apart,
  and eleven of them in a row.
\<close>

definition sample_a :: submission where
  "sample_a =
     \<lparr>sub_prompt = js ''sort a list'', sub_language = js ''python'', sub_type = js ''function'',
      sub_now = 1700000000000, sub_date = 1700000000000\<rparr>"

definition sample_b :: submission where
  "sample_b =
     \<lparr>sub_prompt = js ''sort a list'', sub_language = js ''python'', sub_type = js ''function'',
      sub_now = 1700000002500, sub_date = 1700000002500\<rparr>"

definition eleven_submissions :: "submission list" where
  "eleven_submissions =
     map (\<lambda>i. sample_a\<lparr>sub_now := 1700000000000 + 2500 * int i,
                          sub_date := 1700000000000 + 2500 * int i\<rparr>) [0..<11]"


section \<open>Facts about strings\<close>

lemma js_Nil [simp]: "js [] = []"
  by (simp add: js_def)

lemma js_Cons: "js (c # cs) = of_nat (of_char c) # js cs"
  by (simp add: js_def)

lemma js_append: "js (a @ b) = js a @ js b"
  by (simp add: js_def)

lemma js_eq_Nil_iff [simp]: "js s = [] \<longleftrightarrow> s = []"
  by (simp add: js_def)

lemma unat_jschar: "unat (of_nat (of_char c) :: jschar) = of_char c"
proof -
  have "(of_char c :: nat) < 256"
    by (rule nat_of_char_less_256)
  then have small: "(of_char c :: nat) < 65536"
    by linarith
  have "unat (of_nat (of_char c) :: jschar) = of_char c mod 2 ^ LENGTH(16)"
    by (rule unat_of_nat)
  also have "\<dots> = of_char c"
    using small by simp
  finally show ?thesis .
qed

lemma jschar_eq_iff: "(of_nat (of_char c) :: jschar) = of_nat (of_char d) \<longleftrightarrow> c = d"
proof
  assume "(of_nat (of_char c) :: jschar) = of_nat (of_char d)"
  then have "unat (of_nat (of_char c) :: jschar) = unat (of_nat (of_char d) :: jschar)"
    by simp
  then have "(of_char c :: nat) = of_char d"
    by (simp only: unat_jschar)
  then show "c = d"
    by simp
qed simp

text \<open>Two ASCII literals are the same JavaScript string only if they are the same literal.\<close>

lemma js_eq_iff [simp]: "js a = js b \<longleftrightarrow> a = b"
proof (induction a arbitrary: b)
  case Nil
  then show ?case by (auto simp: js_def)
next
  case (Cons c cs)
  then show ?case
    by (cases b) (auto simp: js_Cons jschar_eq_iff)
qed

text \<open>\<open>!prompt.trim()\<close> holds exactly for the strings made of white space only.\<close>

lemma trim_eq_Nil_iff: "trim s = [] \<longleftrightarrow> (\<forall>c \<in> set s. isWhiteSpace c)"
proof
  assume "trim s = []"
  then have rest: "\<forall>c \<in> set (dropWhile isWhiteSpace s). isWhiteSpace c"
    by (simp add: trim_def)
  have "dropWhile isWhiteSpace s = []"
  proof (rule ccontr)
    assume ne: "dropWhile isWhiteSpace s \<noteq> []"
    then have "\<not> isWhiteSpace (hd (dropWhile isWhiteSpace s))"
      by (rule hd_dropWhile)
    moreover have "hd (dropWhile isWhiteSpace s) \<in> set (dropWhile isWhiteSpace s)"
      using ne by simp
    ultimately show False
      using rest by blast
  qed
  then show "\<forall>c \<in> set s. isWhiteSpace c"
    by simp
next
  assume "\<forall>c \<in> set s. isWhiteSpace c"
  then have "dropWhile isWhiteSpace s = []"
    by simp
  then show "trim s = []"
    by (simp only: trim_def rev.simps dropWhile.simps)
qed

lemma isWhiteSpace_space: "isWhiteSpace 0x20"
  by (simp add: isWhiteSpace_def)

lemma not_isWhiteSpace_s: "\<not> isWhiteSpace 115"
  by (simp add: isWhiteSpace_def)

lemma trim_sample: "trim (js ''sort a list'') \<noteq> []"
  by (simp add: trim_def js_def not_isWhiteSpace_s)

lemma trim_spaces: "trim (js ''   '') = []"
  by (simp add: trim_def js_def isWhiteSpace_space)

declare decimal.simps [simp del]







lemma toString_sample:
  "toString 1700000000000 = js ''1700000000000''"
  "toString 1700000002500 = js ''1700000002500''"
  by (simp_all add: toString_def decimal.simps digit_def js_def)

section \<open>The renderer\<close>

lemmas template_defs =
  javascript_function_template_def javascript_api_template_def python_function_template_def
  python_class_template_def java_class_template_def fallback_template_def

lemma template_not_Nil:
  "javascript_function_template p \<noteq> []" "javascript_api_template p \<noteq> []"
  "python_function_template p \<noteq> []" "python_class_template p \<noteq> []"
  "java_class_template p \<noteq> []" "fallback_template p l t \<noteq> []"
  by (simp_all add: template_defs)

lemma template_sublist:
  "sublist p (javascript_function_template p)" "sublist p (javascript_api_template p)"
  "sublist p (python_function_template p)" "sublist p (python_class_template p)"
  "sublist p (java_class_template p)"
  unfolding template_defs by (rule sublist_appendI)+

lemma fallback_sublist: "sublist p (fallback_template p l t)"
proof -
  have "fallback_template p l t =
      (js ''// Generated '' @ l @ js '' '' @ t @ js '' based on: \"'') @ p @
      (js fallback_middle @ p @ js ''\");'')"
    by (simp add: fallback_template_def)
  then show ?thesis
    by (simp only: sublist_appendI)
qed

lemma catalog_five_pairs:
  "generateMockCode p (js ''javascript'') (js ''function'') = javascript_function_template p"
  "generateMockCode p (js ''javascript'') (js ''api'') = javascript_api_template p"
  "generateMockCode p (js ''python'') (js ''function'') = python_function_template p"
  "generateMockCode p (js ''python'') (js ''class'') = python_class_template p"
  "generateMockCode p (js ''java'') (js ''class'') = java_class_template p"
  by (simp_all add: generateMockCode_def)

text \<open>
  The first line of each dedicated template differs from the first line the default
  template has for the same pair, before the prompt starts.
\<close>

lemma dedicated_neq_fallback:
  "javascript_function_template p \<noteq> fallback_template p (js ''javascript'') (js ''function'')"
  "javascript_api_template p \<noteq> fallback_template p (js ''javascript'') (js ''api'')"
  "python_function_template p \<noteq> fallback_template p (js ''python'') (js ''function'')"
  "python_class_template p \<noteq> fallback_template p (js ''python'') (js ''class'')"
  "java_class_template p \<noteq> fallback_template p (js ''java'') (js ''class'')"
  by (simp_all add: template_defs js_Cons jschar_eq_iff)

lemma fallback_sample:
  \<open>fallback_template (js ''sort a list'') (js ''typescript'') (js ''function'') =
     js (''// Generated typescript function based on: "sort a list"\<newline>'' @
         ''// This is a placeholder implementation\<newline>'' @
         ''// Please provide more specific requirements for better code generation\<newline>'' @
         ''\<newline>'' @
         ''console.log("Generated code for: sort a list");'')\<close>
  by (simp add: fallback_template_def fallback_middle_def js_append [symmetric])

lemma fallback_klingon:
  \<open>fallback_template [] (js ''klingon'') (js ''poem'') =
     js (''// Generated klingon poem based on: ""\<newline>'' @
         ''// This is a placeholder implementation\<newline>'' @
         ''// Please provide more specific requirements for better code generation\<newline>'' @
         ''\<newline>'' @
         ''console.log("Generated code for: ");'')\<close>
  by (simp add: fallback_template_def fallback_middle_def js_append [symmetric])

text \<open>
  C4. For every language string, every type string and every prompt,
  \<open>generateMockCode\<close> returns a string that is not empty, and the function has no
  branch that throws. A pair that is not one of the five with a template of its own,
  whether from the selects or any other pair of strings, falls through to the default
  \<open>return\<close>: the result is the default template, which is never empty.
\<close>

theorem generateMockCode_total:
  "generateMockCode p l t \<noteq> [] \<and>
   fallback_template p l t \<noteq> [] \<and>
   ((l, t) \<notin> {(js ''javascript'', js ''function''), (js ''javascript'', js ''api''),
                (js ''python'', js ''function''), (js ''python'', js ''class''),
                (js ''java'', js ''class'')} \<longrightarrow>
    generateMockCode p l t = fallback_template p l t)"
proof -
  have "generateMockCode p l t = fallback_template p l t"
    if "(l, t) \<notin> {(js ''javascript'', js ''function''), (js ''javascript'', js ''api''),
                (js ''python'', js ''function''), (js ''python'', js ''class''),
                (js ''java'', js ''class'')}"
    using that by (auto simp: generateMockCode_def)
  then show ?thesis
    by (simp add: generateMockCode_def template_not_Nil)
qed

text \<open>
  C4 at a language and a type that are in neither select, with the empty prompt: the
  default template, written out.
\<close>

theorem generateMockCode_total_witness:
  \<open>generateMockCode [] (js ''klingon'') (js ''poem'') =
     js (''// Generated klingon poem based on: ""\<newline>'' @
         ''// This is a placeholder implementation\<newline>'' @
         ''// Please provide more specific requirements for better code generation\<newline>'' @
         ''\<newline>'' @
         ''console.log("Generated code for: ");'') \<and>
   generateMockCode [] (js ''klingon'') (js ''poem'') \<noteq> []\<close>
  using generateMockCode_total [of "[]" "js ''klingon''" "js ''poem''"]
  by (simp add: fallback_klingon)

text \<open>
  C5. The string \<open>generateMockCode\<close> returns contains the prompt verbatim as a
  substring, for every prompt (so for every non-empty one) and every pair, with a
  dedicated template or with the default one.
\<close>

theorem generateMockCode_contains_prompt: "sublist p (generateMockCode p l t)"
  by (simp add: generateMockCode_def template_sublist fallback_sublist)

text \<open>
  C9. Five pairs have a template of their own: (javascript, function),
  (javascript, api), (python, function), (python, class) and (java, class), and for each
  of them the result is not what the default template gives. For every other pair of
  strings \<open>generateMockCode\<close> returns the default template.
\<close>

theorem catalog_exactly_five:
  "generateMockCode p (js ''javascript'') (js ''function'') = javascript_function_template p \<and>
   generateMockCode p (js ''javascript'') (js ''api'') = javascript_api_template p \<and>
   generateMockCode p (js ''python'') (js ''function'') = python_function_template p \<and>
   generateMockCode p (js ''python'') (js ''class'') = python_class_template p \<and>
   generateMockCode p (js ''java'') (js ''class'') = java_class_template p \<and>
   javascript_function_template p \<noteq> fallback_template p (js ''javascript'') (js ''function'') \<and>
   javascript_api_template p \<noteq> fallback_template p (js ''javascript'') (js ''api'') \<and>
   python_function_template p \<noteq> fallback_template p (js ''python'') (js ''function'') \<and>
   python_class_template p \<noteq> fallback_template p (js ''python'') (js ''class'') \<and>
   java_class_template p \<noteq> fallback_template p (js ''java'') (js ''class'') \<and>
   ((l, t) \<notin> {(js ''javascript'', js ''function''), (js ''javascript'', js ''api''),
                (js ''python'', js ''function''), (js ''python'', js ''class''),
                (js ''java'', js ''class'')} \<longrightarrow>
    generateMockCode p l t = fallback_template p l t)"
proof -
  have "generateMockCode p l t = fallback_template p l t"
    if "(l, t) \<notin> {(js ''javascript'', js ''function''), (js ''javascript'', js ''api''),
                (js ''python'', js ''function''), (js ''python'', js ''class''),
                (js ''java'', js ''class'')}"
    using that by (auto simp: generateMockCode_def)
  then have other: "(l, t) \<notin> {(js ''javascript'', js ''function''), (js ''javascript'', js ''api''),
                (js ''python'', js ''function''), (js ''python'', js ''class''),
                (js ''java'', js ''class'')} \<longrightarrow>
    generateMockCode p l t = fallback_template p l t"
    by (rule impI)
  show ?thesis
    by (intro conjI catalog_five_pairs dedicated_neq_fallback other)
qed

text \<open>
  C9 at (typescript, function) and at (javascript, class), two pairs of the page's own
  selects: the default template, written out for the first.
\<close>

theorem catalog_exactly_five_witness:
  \<open>generateMockCode (js ''sort a list'') (js ''typescript'') (js ''function'') =
     js (''// Generated typescript function based on: "sort a list"\<newline>'' @
         ''// This is a placeholder implementation\<newline>'' @
         ''// Please provide more specific requirements for better code generation\<newline>'' @
         ''\<newline>'' @
         ''console.log("Generated code for: sort a list");'') \<and>
   generateMockCode (js ''sort a list'') (js ''javascript'') (js ''class'') =
     fallback_template (js ''sort a list'') (js ''javascript'') (js ''class'')\<close>
  using catalog_exactly_five [of "js ''sort a list''" "js ''typescript''" "js ''function''"]
    catalog_exactly_five [of "js ''sort a list''" "js ''javascript''" "js ''class''"]
  by (simp add: fallback_sample)

section \<open>The controller and the list of generated codes\<close>

lemma generateCode_start_blank:
  "trim (prompt s) = [] \<Longrightarrow>
   generateCode_start s = (s\<lparr>toasts := toasts s @ [prompt_required]\<rparr>, None)"
  by (simp add: generateCode_start_def toast_def)

lemma generateCode_blank:
  "trim (prompt s) = [] \<Longrightarrow>
   generateCode now date s = s\<lparr>toasts := toasts s @ [prompt_required]\<rparr>"
  by (simp add: generateCode_def generateCode_start_blank)

lemma generateCode_finish_ledger:
  "generatedCodes (generateCode_finish k now date s) = newCode k now date # generatedCodes s"
  by (simp add: generateCode_finish_def toast_def)

lemma generateCode_ledger:
  "trim (prompt s) \<noteq> [] \<Longrightarrow>
   generatedCodes (generateCode now date s) =
     newCode \<lparr>pending_prompt = prompt s, pending_language = selectedLanguage s,
              pending_type = selectedType s\<rparr> now date # generatedCodes s"
  by (simp add: generateCode_def generateCode_start_def generateCode_finish_ledger)

lemma submit_ledger:
  "generatedCodes (submit e s) =
     (if accepted e then artifact e # generatedCodes s else generatedCodes s)"
  by (simp add: submit_def accepted_def artifact_def generateCode_ledger generateCode_blank)

text \<open>
  The list after a session: the artifacts of the submissions that passed the validation,
  the latest first, in front of the list as it was.
\<close>

lemma session_ledger:
  "generatedCodes (session s es) = rev (map artifact (filter accepted es)) @ generatedCodes s"
  by (induction es arbitrary: s) (simp_all add: submit_ledger)

lemma gc_id_artifact: "gc_id (artifact e) = toString (sub_now e)"
  by (simp add: artifact_def newCode_def)

lemma accepted_samples: "accepted sample_a" "accepted sample_b"
  by (simp_all add: accepted_def sample_a_def sample_b_def trim_sample)

lemma eleven_accepted: "filter accepted eleven_submissions = eleven_submissions"
  by (simp add: eleven_submissions_def filter_map o_def accepted_def sample_a_def trim_sample)




text \<open>
  C3. When the prompt is empty or consists of white space only, whatever language and
  type are selected, \<open>generateCode\<close> stops before the \<open>await\<close> (nothing is left to
  resume, so nothing is rendered) and the state afterwards is the state before with
  exactly one more notification, the \<open>Prompt Required\<close> one: the list of generated
  codes, the prompt and the pending flag are what they were.
\<close>

theorem blank_prompt_rejected:
  assumes "\<forall>c \<in> set (prompt s). isWhiteSpace c"
  shows "generateCode_start s = (s\<lparr>toasts := toasts s @ [prompt_required]\<rparr>, None) \<and>
         generateCode now date s = s\<lparr>toasts := toasts s @ [prompt_required]\<rparr> \<and>
         generatedCodes (generateCode now date s) = generatedCodes s \<and>
         prompt (generateCode now date s) = prompt s \<and>
         isGenerating (generateCode now date s) = isGenerating s \<and>
         toasts (generateCode now date s) = toasts s @ [prompt_required]"
proof -
  from assms have "trim (prompt s) = []"
    by (simp add: trim_eq_Nil_iff)
  then show ?thesis
    by (simp add: generateCode_start_blank generateCode_blank)
qed

text \<open>C3 on the initial page with a prompt of three spaces, and with the empty prompt.\<close>

theorem blank_prompt_rejected_witness:
  "generateCode 1700000000000 1700000000000 (initial_state\<lparr>prompt := js ''   ''\<rparr>) =
     initial_state\<lparr>prompt := js ''   '', toasts := [prompt_required]\<rparr> \<and>
   generateCode 1700000000000 1700000000000 initial_state =
     initial_state\<lparr>toasts := [prompt_required]\<rparr>"
proof -
  have spaces: "\<forall>c \<in> set (prompt (initial_state\<lparr>prompt := js ''   ''\<rparr>)). isWhiteSpace c"
    by (simp add: js_def isWhiteSpace_space)
  have empty: "\<forall>c \<in> set (prompt initial_state). isWhiteSpace c"
    by (simp add: initial_state_def)
  show ?thesis
    using blank_prompt_rejected [OF spaces, of 1700000000000 1700000000000]
      blank_prompt_rejected [OF empty, of 1700000000000 1700000000000]
    by (simp add: initial_state_def)
qed

text \<open>
  C6. The list is most recent first: after a submission \<open>a\<close> and then a submission
  \<open>b\<close> that both pass the validation, the list reads the artifact of \<open>b\<close>, then
  the artifact of \<open>a\<close>, then what it held before. The page displays the list as it
  is stored.
\<close>

theorem ledger_most_recent_first:
  assumes "accepted a" and "accepted b"
  shows "generatedCodes (session s [a, b]) = artifact b # artifact a # generatedCodes s"
  unfolding session_ledger using assms by simp

text \<open>C6 for the two sample submissions on the initial page.\<close>

theorem ledger_most_recent_first_witness:
  "generatedCodes (session initial_state [sample_a, sample_b]) =
     [artifact sample_b, artifact sample_a] \<and>
   map gc_id (generatedCodes (session initial_state [sample_a, sample_b])) =
     [js ''1700000002500'', js ''1700000000000'']"
  using ledger_most_recent_first [OF accepted_samples, of initial_state]
  by (simp add: initial_state_def gc_id_artifact sample_a_def sample_b_def toString_sample)

text \<open>
  C10. A call of \<open>generateCode\<close> with a prompt that is not blank makes the list one
  longer: the new artifact is put in front and the list as it was follows it, every
  artifact unchanged and in the same order. The part of the call after the \<open>await\<close>
  does so on any state it resumes in.
\<close>

theorem generate_appends_one:
  assumes "trim (prompt s) \<noteq> []"
  shows "length (generatedCodes (generateCode now date s)) = length (generatedCodes s) + 1 \<and>
         generatedCodes (generateCode now date s) =
           newCode \<lparr>pending_prompt = prompt s, pending_language = selectedLanguage s,
                    pending_type = selectedType s\<rparr> now date # generatedCodes s \<and>
         generatedCodes (generateCode_finish k now date s') = newCode k now date # generatedCodes s'"
  using assms by (simp add: generateCode_ledger generateCode_finish_ledger)

text \<open>C10 for the first generation on the initial page.\<close>

theorem generate_appends_one_witness:
  "length (generatedCodes (generateCode 1700000000000 1700000000000
      (initial_state\<lparr>prompt := js ''sort a list''\<rparr>))) = 1 \<and>
   map gc_description (generatedCodes (generateCode 1700000000000 1700000000000
      (initial_state\<lparr>prompt := js ''sort a list''\<rparr>))) = [js ''sort a list'']"
proof -
  have filled: "trim (prompt (initial_state\<lparr>prompt := js ''sort a list''\<rparr>)) \<noteq> []"
    by (simp add: trim_sample)
  show ?thesis
    using generate_appends_one [OF filled, of 1700000000000 1700000000000]
    by (simp add: initial_state_def newCode_def)
qed

text \<open>
  C1, as the code has it. The list has no maximum and nothing is ever removed from it:
  after a session it holds one artifact more for each submission that passed the
  validation, and behind the new artifacts the list as it was before.
\<close>

theorem ledger_never_evicts:
  "length (generatedCodes (session s es)) =
     length (generatedCodes s) + length (filter accepted es) \<and>
   drop (length (filter accepted es)) (generatedCodes (session s es)) = generatedCodes s"
  by (simp add: session_ledger)

text \<open>
  C1 as stated fails for the maximum of 10: after eleven successful generations on the
  initial page the list holds more than ten artifacts, and the artifact of the first of
  them is still in the list.
\<close>

theorem ledger_bound_counterexample:
  "\<not> length (generatedCodes (session initial_state eleven_submissions)) \<le> 10 \<and>
   artifact (hd eleven_submissions) \<in> set (generatedCodes (session initial_state eleven_submissions))"
proof -
  have len: "length eleven_submissions = 11"
    by (simp add: eleven_submissions_def)
  then have "eleven_submissions \<noteq> []"
    by auto
  then have "hd eleven_submissions \<in> set eleven_submissions"
    by simp
  then show ?thesis
    using len by (simp add: session_ledger eleven_accepted)
qed





section \<open>The download\<close>




lemma download_name_builtin:
  assumes "getFileExtension (gc_language code) = JSBuiltin n"
  shows "download_name (downloadCode builtinText code) =
           js ''generated-'' @ gc_type code @ js ''-'' @ gc_id code @ js ''.'' @ builtinText n"
  using assms by (simp add: downloadCode_def)







end
